theory Spec2Isabelle
  imports Complex_Main
begin

section \<open>Python values\<close>

text \<open>
  A Python \<open>str\<close> is a sequence of Unicode code points: \<open>len\<close>, slicing, \<open>strip\<close>
  and equality all work on code points. A string is therefore a list of code points,
  and an ASCII literal of the source is written \<open>str ''...''\<close>. The apostrophe is
  the code point 39.
\<close>

type_synonym pystr = "nat list"

definition str :: "string \<Rightarrow> pystr" where
  "str s = map of_char s"

text \<open>The emoji of the display names, by code point.\<close>

definition flag_US :: pystr where "flag_US = [0x1F1FA, 0x1F1F8]"
definition flag_GB :: pystr where "flag_GB = [0x1F1EC, 0x1F1E7]"
definition flag_JP :: pystr where "flag_JP = [0x1F1EF, 0x1F1F5]"
definition flag_CN :: pystr where "flag_CN = [0x1F1E8, 0x1F1F3]"
definition flag_ES :: pystr where "flag_ES = [0x1F1EA, 0x1F1F8]"
definition flag_FR :: pystr where "flag_FR = [0x1F1EB, 0x1F1F7]"
definition flag_IN :: pystr where "flag_IN = [0x1F1EE, 0x1F1F3]"
definition flag_IT :: pystr where "flag_IT = [0x1F1EE, 0x1F1F9]"
definition flag_BR :: pystr where "flag_BR = [0x1F1E7, 0x1F1F7]"
definition womens :: pystr where "womens = [0x1F6BA]"
definition mens :: pystr where "mens = [0x1F6B9]"
definition fire :: pystr where "fire = [0x1F525]"
definition heart :: pystr where "heart = [0x2764, 0xFE0F]"
definition headphone :: pystr where "headphone = [0x1F3A7]"

text \<open>
  \<open>str.isspace\<close> of one code point, and \<open>str.strip()\<close> without arguments, which
  removes the white space at both ends.
\<close>

definition py_isspace :: "nat \<Rightarrow> bool" where
  "py_isspace c \<longleftrightarrow>
     (9 \<le> c \<and> c \<le> 13) \<or> (28 \<le> c \<and> c \<le> 32) \<or> c = 0x85 \<or> c = 0xA0 \<or> c = 0x1680 \<or>
     (0x2000 \<le> c \<and> c \<le> 0x200A) \<or> c = 0x2028 \<or> c = 0x2029 \<or> c = 0x202F \<or>
     c = 0x205F \<or> c = 0x3000"

definition strip :: "pystr \<Rightarrow> pystr" where
  "strip s = rev (dropWhile py_isspace (rev (dropWhile py_isspace s)))"

text \<open>\<open>str(n)\<close> of a natural number: its decimal digits.\<close>

fun str_nat :: "nat \<Rightarrow> pystr" where
  "str_nat n = (if n < 10 then [48 + n] else str_nat (n div 10) @ [48 + n mod 10])"

declare str_nat.simps [simp del]

text \<open>
  \<open>repr\<close> of a string and of a list of strings, as an f-string renders it. The quote
  is the double quote (34) when the string holds an apostrophe and no double quote,
  the apostrophe otherwise; the quote and the backslash (92) are escaped, tab, line
  feed and carriage return are written \<open>\t\<close>, \<open>\n\<close>, \<open>\r\<close>, and the other control
  characters \<open>\xNN\<close>. Code points above 127 are kept, which is what Python does with
  the printable ones.
\<close>

definition hex_digit :: "nat \<Rightarrow> nat" where
  "hex_digit d = (if d < 10 then 48 + d else 87 + d)"

definition repr_char :: "nat \<Rightarrow> nat \<Rightarrow> pystr" where
  "repr_char q c =
     (if c = q \<or> c = 92 then [92, c]
      else if c = 9 then [92, 116]
      else if c = 10 then [92, 110]
      else if c = 13 then [92, 114]
      else if c < 32 \<or> c = 127 then [92, 120, hex_digit (c div 16), hex_digit (c mod 16)]
      else [c])"

definition repr_str :: "pystr \<Rightarrow> pystr" where
  "repr_str s =
     (let q = (if 39 \<in> set s \<and> 34 \<notin> set s then 34 else 39)
      in [q] @ concat (map (repr_char q) s) @ [q])"

fun join_comma :: "pystr list \<Rightarrow> pystr" where
  "join_comma [] = []"
| "join_comma [x] = x"
| "join_comma (x # y # ys) = x @ str '', '' @ join_comma (y # ys)"

definition repr_list :: "pystr list \<Rightarrow> pystr" where
  "repr_list xs = str ''['' @ join_comma (map repr_str xs) @ str '']''"

text \<open>\<open>os.path.join\<close> of two components on a POSIX system; 47 is the slash.\<close>

definition path_join :: "pystr \<Rightarrow> pystr \<Rightarrow> pystr" where
  "path_join a b =
     (if b \<noteq> [] \<and> hd b = 47 then b
      else if a = [] \<or> last a = 47 then a @ b
      else a @ [47] @ b)"

text \<open>
  A dict literal: where a key is written twice, the later entry wins.
\<close>

definition dict_of :: "('k \<times> 'v) list \<Rightarrow> ('k \<rightharpoonup> 'v)" where
  "dict_of kvs = map_of (rev kvs)"

text \<open>
  The exceptions the code raises, catches or tells apart; the argument is the message,
  which \<open>str(e)\<close> returns.
\<close>

datatype exn =
    ValueError pystr
  | RuntimeError pystr
  | ImportError pystr
  | AttributeError pystr
  | OSError pystr

fun exn_str :: "exn \<Rightarrow> pystr" where
  "exn_str (ValueError m) = m"
| "exn_str (RuntimeError m) = m"
| "exn_str (ImportError m) = m"
| "exn_str (AttributeError m) = m"
| "exn_str (OSError m) = m"

section \<open>models/kokoro.py\<close>

subsection \<open>The voice tables\<close>

text \<open>\<open>_get_voice_mapping()\<close>: from formatted display names to raw voice codes.\<close>

definition voice_mapping_items :: "(pystr \<times> pystr) list" where
  "voice_mapping_items = [
    (flag_US @ str '' Alloy '' @ womens @ str '' (C)'', str ''af_alloy''),
    (flag_US @ str '' Aoede '' @ womens @ str '' (C+)'', str ''af_aoede''),
    (flag_US @ str '' Bella '' @ womens @ fire @ str '' (A-)'', str ''af_bella''),
    (flag_US @ str '' Heart '' @ womens @ heart @ str '' (A)'', str ''af_heart''),
    (flag_US @ str '' Jessica '' @ womens @ str '' (D)'', str ''af_jessica''),
    (flag_US @ str '' Kore '' @ womens @ str '' (C+)'', str ''af_kore''),
    (flag_US @ str '' Nicole '' @ womens @ headphone @ str '' (B-)'', str ''af_nicole''),
    (flag_US @ str '' Nova '' @ womens @ str '' (C)'', str ''af_nova''),
    (flag_US @ str '' River '' @ womens @ str '' (D)'', str ''af_river''),
    (flag_US @ str '' Sarah '' @ womens @ str '' (C+)'', str ''af_sarah''),
    (flag_US @ str '' Sky '' @ womens @ str '' (C-)'', str ''af_sky''),
    (flag_US @ str '' Adam '' @ mens @ str '' (F+)'', str ''am_adam''),
    (flag_US @ str '' Echo '' @ mens @ str '' (D)'', str ''am_echo''),
    (flag_US @ str '' Eric '' @ mens @ str '' (D)'', str ''am_eric''),
    (flag_US @ str '' Fenrir '' @ mens @ str '' (C+)'', str ''am_fenrir''),
    (flag_US @ str '' Liam '' @ mens @ str '' (D)'', str ''am_liam''),
    (flag_US @ str '' Michael '' @ mens @ str '' (C+)'', str ''am_michael''),
    (flag_US @ str '' Onyx '' @ mens @ str '' (D)'', str ''am_onyx''),
    (flag_US @ str '' Puck '' @ mens @ str '' (C+)'', str ''am_puck''),
    (flag_US @ str '' Santa '' @ mens @ str '' (D-)'', str ''am_santa''),
    (flag_GB @ str '' Alice '' @ womens @ str '' (D)'', str ''bf_alice''),
    (flag_GB @ str '' Emma '' @ womens @ str '' (B-)'', str ''bf_emma''),
    (flag_GB @ str '' Isabella '' @ womens @ str '' (C)'', str ''bf_isabella''),
    (flag_GB @ str '' Lily '' @ womens @ str '' (D)'', str ''bf_lily''),
    (flag_GB @ str '' Daniel '' @ mens @ str '' (D)'', str ''bm_daniel''),
    (flag_GB @ str '' Fable '' @ mens @ str '' (C)'', str ''bm_fable''),
    (flag_GB @ str '' George '' @ mens @ str '' (C)'', str ''bm_george''),
    (flag_GB @ str '' Lewis '' @ mens @ str '' (D+)'', str ''bm_lewis''),
    (flag_JP @ str '' Alpha '' @ womens @ str '' (C+)'', str ''jf_alpha''),
    (flag_JP @ str '' Gongitsune '' @ womens @ str '' (C)'', str ''jf_gongitsune''),
    (flag_JP @ str '' Nezumi '' @ womens @ str '' (C-)'', str ''jf_nezumi''),
    (flag_JP @ str '' Tebukuro '' @ womens @ str '' (C)'', str ''jf_tebukuro''),
    (flag_JP @ str '' Kumo '' @ mens @ str '' (C-)'', str ''jm_kumo''),
    (flag_CN @ str '' Xiaobei '' @ womens @ str '' (D)'', str ''zf_xiaobei''),
    (flag_CN @ str '' Xiaoni '' @ womens @ str '' (D)'', str ''zf_xiaoni''),
    (flag_CN @ str '' Xiaoxiao '' @ womens @ str '' (D)'', str ''zf_xiaoxiao''),
    (flag_CN @ str '' Xiaoyi '' @ womens @ str '' (D)'', str ''zf_xiaoyi''),
    (flag_CN @ str '' Yunjian '' @ mens @ str '' (D)'', str ''zm_yunjian''),
    (flag_CN @ str '' Yunxi '' @ mens @ str '' (D)'', str ''zm_yunxi''),
    (flag_CN @ str '' Yunxia '' @ mens @ str '' (D)'', str ''zm_yunxia''),
    (flag_CN @ str '' Yunyang '' @ mens @ str '' (D)'', str ''zm_yunyang''),
    (flag_ES @ str '' Dora '' @ womens, str ''ef_dora''),
    (flag_ES @ str '' Alex '' @ mens, str ''em_alex''),
    (flag_ES @ str '' Santa '' @ mens, str ''em_santa''),
    (flag_FR @ str '' Siwis '' @ womens @ str '' (B-)'', str ''ff_siwis''),
    (flag_IN @ str '' Alpha '' @ womens @ str '' (C)'', str ''hf_alpha''),
    (flag_IN @ str '' Beta '' @ womens @ str '' (C)'', str ''hf_beta''),
    (flag_IN @ str '' Omega '' @ mens @ str '' (C)'', str ''hm_omega''),
    (flag_IN @ str '' Psi '' @ mens @ str '' (C)'', str ''hm_psi''),
    (flag_IT @ str '' Sara '' @ womens @ str '' (C)'', str ''if_sara''),
    (flag_IT @ str '' Nicola '' @ mens @ str '' (C)'', str ''im_nicola''),
    (flag_BR @ str '' Dora '' @ womens, str ''pf_dora''),
    (flag_BR @ str '' Alex '' @ mens, str ''pm_alex''),
    (flag_BR @ str '' Santa '' @ mens, str ''pm_santa'')]"

definition get_voice_mapping :: "pystr \<rightharpoonup> pystr" where
  "get_voice_mapping = dict_of voice_mapping_items"

text \<open>\<open>voice_formats\<close> of \<open>list_voices\<close>: from raw voice codes to display names.\<close>

definition voice_formats_items :: "(pystr \<times> pystr) list" where
  "voice_formats_items = [
    (str ''af_alloy'', flag_US @ str '' Alloy '' @ womens @ str '' (C)''),
    (str ''af_aoede'', flag_US @ str '' Aoede '' @ womens @ str '' (C+)''),
    (str ''af_bella'', flag_US @ str '' Bella '' @ womens @ fire @ str '' (A-)''),
    (str ''af_heart'', flag_US @ str '' Heart '' @ womens @ heart @ str '' (A)''),
    (str ''af_jessica'', flag_US @ str '' Jessica '' @ womens @ str '' (D)''),
    (str ''af_kore'', flag_US @ str '' Kore '' @ womens @ str '' (C+)''),
    (str ''af_nicole'', flag_US @ str '' Nicole '' @ womens @ headphone @ str '' (B-)''),
    (str ''af_nova'', flag_US @ str '' Nova '' @ womens @ str '' (C)''),
    (str ''af_river'', flag_US @ str '' River '' @ womens @ str '' (D)''),
    (str ''af_sarah'', flag_US @ str '' Sarah '' @ womens @ str '' (C+)''),
    (str ''af_sky'', flag_US @ str '' Sky '' @ womens @ str '' (C-)''),
    (str ''am_adam'', flag_US @ str '' Adam '' @ mens @ str '' (F+)''),
    (str ''am_echo'', flag_US @ str '' Echo '' @ mens @ str '' (D)''),
    (str ''am_eric'', flag_US @ str '' Eric '' @ mens @ str '' (D)''),
    (str ''am_fenrir'', flag_US @ str '' Fenrir '' @ mens @ str '' (C+)''),
    (str ''am_liam'', flag_US @ str '' Liam '' @ mens @ str '' (D)''),
    (str ''am_michael'', flag_US @ str '' Michael '' @ mens @ str '' (C+)''),
    (str ''am_onyx'', flag_US @ str '' Onyx '' @ mens @ str '' (D)''),
    (str ''am_puck'', flag_US @ str '' Puck '' @ mens @ str '' (C+)''),
    (str ''am_santa'', flag_US @ str '' Santa '' @ mens @ str '' (D-)''),
    (str ''bf_alice'', flag_GB @ str '' Alice '' @ womens @ str '' (D)''),
    (str ''bf_emma'', flag_GB @ str '' Emma '' @ womens @ str '' (B-)''),
    (str ''bf_isabella'', flag_GB @ str '' Isabella '' @ womens @ str '' (C)''),
    (str ''bf_lily'', flag_GB @ str '' Lily '' @ womens @ str '' (D)''),
    (str ''bm_daniel'', flag_GB @ str '' Daniel '' @ mens @ str '' (D)''),
    (str ''bm_fable'', flag_GB @ str '' Fable '' @ mens @ str '' (C)''),
    (str ''bm_george'', flag_GB @ str '' George '' @ mens @ str '' (C)''),
    (str ''bm_lewis'', flag_GB @ str '' Lewis '' @ mens @ str '' (D+)''),
    (str ''jf_alpha'', flag_JP @ str '' Alpha '' @ womens @ str '' (C+)''),
    (str ''jf_gongitsune'', flag_JP @ str '' Gongitsune '' @ womens @ str '' (C)''),
    (str ''jf_nezumi'', flag_JP @ str '' Nezumi '' @ womens @ str '' (C-)''),
    (str ''jf_tebukuro'', flag_JP @ str '' Tebukuro '' @ womens @ str '' (C)''),
    (str ''jm_kumo'', flag_JP @ str '' Kumo '' @ mens @ str '' (C-)''),
    (str ''zf_xiaobei'', flag_CN @ str '' Xiaobei '' @ womens @ str '' (D)''),
    (str ''zf_xiaoni'', flag_CN @ str '' Xiaoni '' @ womens @ str '' (D)''),
    (str ''zf_xiaoxiao'', flag_CN @ str '' Xiaoxiao '' @ womens @ str '' (D)''),
    (str ''zf_xiaoyi'', flag_CN @ str '' Xiaoyi '' @ womens @ str '' (D)''),
    (str ''zm_yunjian'', flag_CN @ str '' Yunjian '' @ mens @ str '' (D)''),
    (str ''zm_yunxi'', flag_CN @ str '' Yunxi '' @ mens @ str '' (D)''),
    (str ''zm_yunxia'', flag_CN @ str '' Yunxia '' @ mens @ str '' (D)''),
    (str ''zm_yunyang'', flag_CN @ str '' Yunyang '' @ mens @ str '' (D)''),
    (str ''ef_dora'', flag_ES @ str '' Dora '' @ womens),
    (str ''em_alex'', flag_ES @ str '' Alex '' @ mens),
    (str ''em_santa'', flag_ES @ str '' Santa '' @ mens),
    (str ''ff_siwis'', flag_FR @ str '' Siwis '' @ womens @ str '' (B-)''),
    (str ''hf_alpha'', flag_IN @ str '' Alpha '' @ womens @ str '' (C)''),
    (str ''hf_beta'', flag_IN @ str '' Beta '' @ womens @ str '' (C)''),
    (str ''hm_omega'', flag_IN @ str '' Omega '' @ mens @ str '' (C)''),
    (str ''hm_psi'', flag_IN @ str '' Psi '' @ mens @ str '' (C)''),
    (str ''if_sara'', flag_IT @ str '' Sara '' @ womens @ str '' (C)''),
    (str ''im_nicola'', flag_IT @ str '' Nicola '' @ mens @ str '' (C)''),
    (str ''pf_dora'', flag_BR @ str '' Dora '' @ womens),
    (str ''pm_alex'', flag_BR @ str '' Alex '' @ mens),
    (str ''pm_santa'', flag_BR @ str '' Santa '' @ mens)]"

definition voice_formats :: "pystr \<rightharpoonup> pystr" where
  "voice_formats = dict_of voice_formats_items"

subsection \<open>The pipeline and the state of the process\<close>

text \<open>
  An audio tensor of one dimension is the list of its samples. A Python generator is
  the finite trace of what it does when iterated: it yields values and then either
  stops or raises.
\<close>

type_synonym sample = real
type_synonym tensor = "sample list"

datatype 'a gen = Yield 'a "'a gen" | Stop | Raise exn

text \<open>
  The loaded \<open>KPipeline\<close>: the keys of \<open>pipeline.voices\<close> in insertion order, and
  what \<open>pipeline(text, voice=voice)\<close> yields (the \<open>audio\<close> of each result, moved to
  the CPU). Both belong to the external library.
\<close>

record pipeline =
  voices :: "pystr list"
  run :: "pystr \<Rightarrow> pystr \<Rightarrow> tensor gen"

datatype pymodule = Models_kokoro

text \<open>
  What the process has around it, fixed during one request:
  \<^item> \<open>import_module\<close>: \<open>importlib.import_module(name)\<close>, returning the module or raising;
  \<^item> \<open>kpipeline_init\<close>: the \<open>try\<close> body of \<open>_load_kokoro_model\<close> (import of the
    library, construction of the pipeline, loading of the cached voices), giving the
    pipeline or the exception that left the body;
  \<^item> \<open>sf_write_error\<close>: the exception \<open>sf.write\<close> raises for a path, if any;
  \<^item> \<open>open_log_error\<close>: the exception raised when opening the ledger for appending,
    if any;
  \<^item> \<open>now\<close>, \<open>strftime_now\<close>: \<open>int(time.time())\<close> and the formatted local time;
  \<^item> \<open>fmt2\<close>: the float formatting \<open>f"{duration:.2f}"\<close>; \<open>round2\<close>: \<open>round(x, 2)\<close>;
  \<^item> \<open>OUTPUT_DIR\<close>: the output directory, computed from the location of app.py.
\<close>

record env =
  import_module :: "pystr \<Rightarrow> exn + pymodule"
  kpipeline_init :: "exn + pipeline"
  sf_write_error :: "pystr \<Rightarrow> exn option"
  open_log_error :: "exn option"
  now :: nat
  strftime_now :: pystr
  fmt2 :: "real \<Rightarrow> pystr"
  round2 :: "real \<Rightarrow> real"
  OUTPUT_DIR :: pystr

text \<open>
  The mutable state:
  \<^item> \<open>model_modules\<close>: the cache \<open>_model_modules\<close> of app.py;
  \<^item> \<open>import_calls\<close>: the module names handed to \<open>importlib.import_module\<close> so far;
  \<^item> \<open>kokoro_pipeline\<close>: the global \<open>_kokoro_pipeline\<close>;
  \<^item> \<open>pipeline_inits\<close>: how often the pipeline has been constructed;
  \<^item> \<open>pipeline_calls\<close>: the \<open>(text, voice)\<close> of every call of the pipeline so far;
  \<^item> \<open>files\<close>: the audio files on disk, each with the samples and the sample rate
    handed to \<open>sf.write\<close>;
  \<^item> \<open>ledger\<close>: the rows of logs/results.csv, \<open>None\<close> while the file does not exist;
  \<^item> \<open>error_log\<close>: the messages given to \<open>app.logger.error\<close>.
\<close>

record world =
  model_modules :: "pystr \<rightharpoonup> pymodule"
  import_calls :: "pystr list"
  kokoro_pipeline :: "pipeline option"
  pipeline_inits :: nat
  pipeline_calls :: "(pystr \<times> pystr) list"
  files :: "pystr \<rightharpoonup> (tensor \<times> nat)"
  ledger :: "pystr list list option"
  error_log :: "pystr list"

subsection \<open>\<open>_load_kokoro_model\<close>\<close>

definition load_kokoro_model :: "env \<Rightarrow> world \<Rightarrow> (exn + pipeline) \<times> world" where
  "load_kokoro_model E w =
     (case kokoro_pipeline w of
        Some p \<Rightarrow> (Inr p, w)
      | None \<Rightarrow>
          (case kpipeline_init E of
             Inr p \<Rightarrow> (Inr p, w\<lparr>kokoro_pipeline := Some p, pipeline_inits := pipeline_inits w + 1\<rparr>)
           | Inl (ImportError m) \<Rightarrow>
               (Inl (ImportError (str ''Kokoro not installed. Run setup-neo-tts.sh first'')), w)
           | Inl e \<Rightarrow>
               (Inl (RuntimeError (str ''Failed to load Kokoro model: '' @ exn_str e)), w)))"

subsection \<open>\<open>list_voices\<close>\<close>

text \<open>The loop that formats the raw voices, appending to \<open>formatted_voices\<close>.\<close>

fun format_loop :: "pystr list \<Rightarrow> pystr list \<Rightarrow> pystr list" where
  "format_loop [] formatted_voices = formatted_voices"
| "format_loop (voice # raw_voices) formatted_voices =
     (let formatted = (case voice_formats voice of
                         Some d \<Rightarrow> d
                       | None \<Rightarrow> voice @ str '' (Unknown)'')
      in format_loop raw_voices (formatted_voices @ [formatted]))"

definition format_voices :: "pystr list \<Rightarrow> pystr list" where
  "format_voices raw_voices = format_loop raw_voices []"

definition fallback_voices :: "pystr list" where
  "fallback_voices = [
     flag_US @ str '' Alloy '' @ womens @ str '' (C)'',
     flag_US @ str '' Adam '' @ mens @ str '' (F+)'',
     flag_GB @ str '' Emma '' @ womens @ str '' (B-)'',
     flag_GB @ str '' Daniel '' @ mens @ str '' (D)'']"

definition list_voices :: "env \<Rightarrow> world \<Rightarrow> pystr list \<times> world" where
  "list_voices E w =
     (case load_kokoro_model E w of
        (Inr p, w1) \<Rightarrow> (format_voices (voices p), w1)
      | (Inl e, w1) \<Rightarrow> (fallback_voices, w1))"

subsection \<open>\<open>generate_audio\<close> of the backend\<close>

text \<open>Lines 254 to 256: a formatted name becomes its raw code, anything else stays.\<close>

definition resolve_voice :: "pystr \<Rightarrow> pystr" where
  "resolve_voice voice =
     (case get_voice_mapping voice of Some code \<Rightarrow> code | None \<Rightarrow> voice)"

text \<open>The loop that collects the segments, appending to \<open>audio_segments\<close>.\<close>

fun collect_segments :: "tensor gen \<Rightarrow> tensor list \<Rightarrow> exn + tensor list" where
  "collect_segments Stop audio_segments = Inr audio_segments"
| "collect_segments (Raise e) audio_segments = Inl e"
| "collect_segments (Yield audio results) audio_segments =
     collect_segments results (audio_segments @ [audio])"

text \<open>\<open>torch.cat(tensors, dim=0)\<close> on tensors of one dimension.\<close>

primrec torch_cat :: "tensor list \<Rightarrow> tensor" where
  "torch_cat [] = []"
| "torch_cat (t # ts) = t @ torch_cat ts"

text \<open>
  The body of the \<open>try\<close>. The state reached is returned with the exception too: what
  was loaded or called before a failure stays so.
\<close>

definition generate_body :: "env \<Rightarrow> pystr \<Rightarrow> pystr \<Rightarrow> pystr \<Rightarrow> world \<Rightarrow> (exn + pystr) \<times> world" where
  "generate_body E text_in voice0 output_path w =
     (case load_kokoro_model E w of
        (Inl e, w1) \<Rightarrow> (Inl e, w1)
      | (Inr p, w1) \<Rightarrow>
          (let voice = resolve_voice voice0 in
           if voice \<notin> set (voices p) then
             (Inl (ValueError (str ''Voice '' @ [39] @ voice @ [39] @
                     str '' not available. Available: '' @ repr_list (voices p))), w1)
           else
             (let results = run p text_in voice;
                  w2 = w1\<lparr>pipeline_calls := pipeline_calls w1 @ [(text_in, voice)]\<rparr>
              in case collect_segments results [] of
                   Inl e \<Rightarrow> (Inl e, w2)
                 | Inr audio_segments \<Rightarrow>
                     if audio_segments \<noteq> [] then
                       (let combined_audio = torch_cat audio_segments
                        in case sf_write_error E output_path of
                             Some e \<Rightarrow> (Inl e, w2)
                           | None \<Rightarrow>
                               (Inr output_path,
                                w2\<lparr>files := (files w2)(output_path \<mapsto> (combined_audio, 24000))\<rparr>))
                     else
                       (Inl (RuntimeError (str ''No audio generated from Kokoro pipeline'')), w2))))"

definition kokoro_generate_audio ::
    "env \<Rightarrow> pystr \<Rightarrow> pystr option \<Rightarrow> pystr \<Rightarrow> world \<Rightarrow> (exn + pystr) \<times> world" where
  "kokoro_generate_audio E text_in voice output_path w =
     (let voice0 = (case voice of None \<Rightarrow> str ''af_alloy'' | Some v \<Rightarrow> v)
      in case generate_body E text_in voice0 output_path w of
           (Inr path, w1) \<Rightarrow> (Inr path, w1)
         | (Inl e, w1) \<Rightarrow>
             (Inl (RuntimeError (str ''Kokoro generation failed: '' @ exn_str e)), w1))"

section \<open>app/app.py\<close>

subsection \<open>The registry and \<open>get_model_module\<close>\<close>

record model_info =
  info_name :: pystr
  info_description :: pystr
  info_module :: pystr

definition MODELS :: "pystr \<rightharpoonup> model_info" where
  "MODELS = dict_of [
     (str ''kokoro'',
      \<lparr>info_name = str ''Kokoro'',
       info_description = str ''Fast lightweight TTS for local mac'',
       info_module = str ''models.kokoro''\<rparr>)]"

text \<open>
  Only \<open>ImportError\<close> is caught and wrapped; any other exception of the import leaves
  the function as it is. Nothing is cached unless the import returned.
\<close>

definition get_model_module :: "env \<Rightarrow> pystr \<Rightarrow> world \<Rightarrow> (exn + pymodule) \<times> world" where
  "get_model_module E model_name w =
     (case model_modules w model_name of
        Some m \<Rightarrow> (Inr m, w)
      | None \<Rightarrow>
          (case MODELS model_name of
             None \<Rightarrow> (Inl (ValueError (str ''Unknown model: '' @ model_name)), w)
           | Some info \<Rightarrow>
               (let w1 = w\<lparr>import_calls := import_calls w @ [info_module info]\<rparr>
                in case import_module E (info_module info) of
                     Inr m \<Rightarrow> (Inr m, w1\<lparr>model_modules := (model_modules w1)(model_name \<mapsto> m)\<rparr>)
                   | Inl (ImportError msg) \<Rightarrow>
                       (Inl (RuntimeError (str ''Failed to load model '' @ model_name @
                               str '': '' @ msg)), w1)
                   | Inl e \<Rightarrow> (Inl e, w1))))"

text \<open>The functions of a loaded module; the registry has one module.\<close>

fun module_list_voices :: "pymodule \<Rightarrow> env \<Rightarrow> world \<Rightarrow> pystr list \<times> world" where
  "module_list_voices Models_kokoro E w = list_voices E w"

fun module_generate_audio ::
    "pymodule \<Rightarrow> env \<Rightarrow> pystr \<Rightarrow> pystr option \<Rightarrow> pystr \<Rightarrow> world \<Rightarrow> (exn + pystr) \<times> world" where
  "module_generate_audio Models_kokoro E text_in voice output_path w =
     kokoro_generate_audio E text_in voice output_path w"

subsection \<open>\<open>log_generation\<close>\<close>

text \<open>
  The duration read back from the written file, \<open>0.0\<close> when reading or dividing
  raises (the bare \<open>except\<close>).
\<close>

definition probe_duration :: "world \<Rightarrow> pystr \<Rightarrow> real" where
  "probe_duration w path =
     (case files w path of
        None \<Rightarrow> 0
      | Some (audio, sr) \<Rightarrow> if sr = 0 then 0 else real (length audio) / real sr)"

definition ledger_header :: "pystr list" where
  "ledger_header = [str ''timestamp'', str ''model'', str ''speaker'', str ''text'',
                    str ''duration'', str ''output_path'']"

definition log_generation ::
    "env \<Rightarrow> pystr \<Rightarrow> pystr option \<Rightarrow> pystr \<Rightarrow> pystr \<Rightarrow> world \<Rightarrow> (exn + unit) \<times> world" where
  "log_generation E model speaker text_in output_path w =
     (let file_exists = (ledger w \<noteq> None);
          duration = probe_duration w output_path
      in case open_log_error E of
           Some e \<Rightarrow> (Inl e, w)
         | None \<Rightarrow>
             (let old_rows = (case ledger w of None \<Rightarrow> [] | Some rows \<Rightarrow> rows);
                  header = (if \<not> file_exists then [ledger_header] else []);
                  row = [strftime_now E,
                         model,
                         (case speaker of None \<Rightarrow> str ''default''
                          | Some s \<Rightarrow> if s = [] then str ''default'' else s),
                         (if length text_in > 100 then take 100 text_in @ str ''...'' else text_in),
                         fmt2 E duration,
                         output_path]
              in (Inr (), w\<lparr>ledger := Some (old_rows @ header @ [row])\<rparr>)))"

subsection \<open>The endpoints\<close>

text \<open>
  The JSON body of a request is an object; each of its three fields is missing, \<open>null\<close>
  or a string. A response is the JSON body given to \<open>jsonify\<close> with the HTTP status,
  200 where the code gives none. Of the success payload, \<open>generation_time\<close> and
  \<open>gpu_usage\<close> are readings of the clock and the device and are left out; the clock
  and \<open>monitor_gpu_usage\<close> are taken to return.
\<close>

datatype jfield = Missing | Null | Str pystr

record request =
  req_model :: jfield
  req_voice :: jfield
  req_text :: jfield

record payload =
  audio_url :: pystr
  payload_model :: pystr
  payload_voice :: "pystr option"
  audio_duration :: real

datatype body = VoicesBody "pystr list" | ErrorBody pystr | AudioBody payload

type_synonym response = "body \<times> nat"

text \<open>\<open>data.get(key)\<close> and \<open>data.get(key, "")\<close>; \<open>None\<close> is Python's \<open>None\<close>.\<close>

fun data_get :: "jfield \<Rightarrow> pystr option" where
  "data_get Missing = None"
| "data_get Null = None"
| "data_get (Str s) = Some s"

fun data_get_default :: "jfield \<Rightarrow> pystr \<Rightarrow> pystr option" where
  "data_get_default Missing d = Some d"
| "data_get_default Null d = None"
| "data_get_default (Str s) d = Some s"

definition get_voices :: "env \<Rightarrow> pystr \<Rightarrow> world \<Rightarrow> response \<times> world" where
  "get_voices E model_name w =
     (case get_model_module E model_name w of
        (Inl e, w1) \<Rightarrow> ((ErrorBody (exn_str e), 500), w1)
      | (Inr m, w1) \<Rightarrow>
          (case module_list_voices m E w1 of
             (vs, w2) \<Rightarrow> ((VoicesBody vs, 200), w2)))"

text \<open>
  The inner \<open>try\<close> of \<open>generate_audio\<close>: the call of the backend inside the
  \<open>PerformanceTimer\<close> (which logs and lets exceptions through), the duration probe,
  the ledger and the payload.
\<close>

definition generate_inner ::
    "env \<Rightarrow> pymodule \<Rightarrow> pystr \<Rightarrow> pystr option \<Rightarrow> pystr \<Rightarrow> pystr \<Rightarrow> pystr \<Rightarrow> world
       \<Rightarrow> (exn + payload) \<times> world" where
  "generate_inner E m model_name voice text_in filename output_path w =
     (case module_generate_audio m E text_in voice output_path w of
        (Inl e, w1) \<Rightarrow> (Inl e, w1)
      | (Inr result_path, w1) \<Rightarrow>
          (let duration = probe_duration w1 result_path
           in case log_generation E model_name voice text_in result_path w1 of
                (Inl e, w2) \<Rightarrow> (Inl e, w2)
              | (Inr u, w2) \<Rightarrow>
                  (Inr \<lparr>audio_url = str ''/static/output/'' @ filename,
                        payload_model = model_name,
                        payload_voice = voice,
                        audio_duration = round2 E duration\<rparr>, w2)))"

definition generate_audio :: "env \<Rightarrow> request \<Rightarrow> world \<Rightarrow> response \<times> world" where
  "generate_audio E data w =
     (let model_name = data_get (req_model data);
          voice = data_get (req_voice data)
      in case data_get_default (req_text data) [] of
           None \<Rightarrow>
             ((ErrorBody (exn_str (AttributeError
                 ([39] @ str ''NoneType'' @ [39] @ str '' object has no attribute '' @
                  [39] @ str ''strip'' @ [39]))), 500), w)
         | Some raw_text \<Rightarrow>
             (let text_in = strip raw_text
              in case model_name of
                   None \<Rightarrow> ((ErrorBody (str ''Invalid model''), 400), w)
                 | Some mn \<Rightarrow>
                     if mn = [] \<or> MODELS mn = None then
                       ((ErrorBody (str ''Invalid model''), 400), w)
                     else if text_in = [] then
                       ((ErrorBody (str ''Text is required''), 400), w)
                     else
                       (case get_model_module E mn w of
                          (Inl e, w1) \<Rightarrow> ((ErrorBody (exn_str e), 500), w1)
                        | (Inr m, w1) \<Rightarrow>
                            (let filename = mn @ str ''_'' @ str_nat (now E) @ str ''.wav'';
                                 output_path = path_join (OUTPUT_DIR E) filename
                             in case generate_inner E m mn voice text_in filename output_path w1 of
                                  (Inr p, w2) \<Rightarrow> ((AudioBody p, 200), w2)
                                | (Inl e, w2) \<Rightarrow>
                                    ((ErrorBody (exn_str e), 500),
                                     w2\<lparr>error_log := error_log w2 @ [str ''.2f'']\<rparr>)))))"

section \<open>Scenarios\<close>

text \<open>A generator that yields the given values and stops.\<close>

primrec yields :: "'a list \<Rightarrow> 'a gen" where
  "yields [] = Stop"
| "yields (x # xs) = Yield x (yields xs)"

text \<open>
  The state of a process that has just started, on a disk without audio files and
  without a ledger: nothing is cached and no pipeline is loaded.
\<close>

definition fresh_world :: world where
  "fresh_world =
     \<lparr>model_modules = Map.empty, import_calls = [], kokoro_pipeline = None,
      pipeline_inits = 0, pipeline_calls = [], files = Map.empty, ledger = None,
      error_log = []\<rparr>"

text \<open>The states in which only registered models are cached; the fresh one is such.\<close>

definition cache_registered :: "world \<Rightarrow> bool" where
  "cache_registered w \<longleftrightarrow> (\<forall>n. model_modules w n \<noteq> None \<longrightarrow> MODELS n \<noteq> None)"

text \<open>
  A pipeline with two loaded voices that speaks every text in three segments, and
  surroundings in which everything works.
\<close>

definition bella_display :: pystr where
  "bella_display = flag_US @ str '' Bella '' @ womens @ fire @ str '' (A-)''"

definition three_segments :: "pystr \<Rightarrow> pystr \<Rightarrow> tensor gen" where
  "three_segments text_in voice = Yield [1, 2] (Yield [3] (Yield [4, 5] Stop))"

definition demo_pipeline :: pipeline where
  "demo_pipeline = \<lparr>voices = [str ''af_alloy'', str ''af_bella''], run = three_segments\<rparr>"

definition demo_import :: "pystr \<Rightarrow> exn + pymodule" where
  "demo_import name =
     (if name = str ''models.kokoro'' then Inr Models_kokoro
      else Inl (ImportError (str ''No module named '' @ repr_str name)))"

definition no_write_error :: "pystr \<Rightarrow> exn option" where
  "no_write_error path = None"

definition demo_fmt2 :: "real \<Rightarrow> pystr" where
  "demo_fmt2 x = str ''0.00''"

definition demo_round2 :: "real \<Rightarrow> real" where
  "demo_round2 x = 0"

definition demo_env :: env where
  "demo_env =
     \<lparr>import_module = demo_import,
      kpipeline_init = Inr demo_pipeline,
      sf_write_error = no_write_error,
      open_log_error = None,
      now = 1700000000,
      strftime_now = str ''2023-11-14 22:13:20'',
      fmt2 = demo_fmt2,
      round2 = demo_round2,
      OUTPUT_DIR = str ''/srv/app/static/output''\<rparr>"


definition no_weights_env :: env where
  "no_weights_env = demo_env\<lparr>kpipeline_init := Inl (OSError (str ''weights not found''))\<rparr>"

definition broken_library :: "pystr \<Rightarrow> exn + pymodule" where
  "broken_library name = Inl (OSError (str ''cannot open shared object file''))"

definition broken_library_env :: env where
  "broken_library_env = demo_env\<lparr>import_module := broken_library\<rparr>"

definition missing_library :: "pystr \<Rightarrow> exn + pymodule" where
  "missing_library name = Inl (ImportError (str ''No module named torch''))"

definition missing_library_env :: env where
  "missing_library_env = demo_env\<lparr>import_module := missing_library\<rparr>"

definition silent :: "pystr \<Rightarrow> pystr \<Rightarrow> tensor gen" where
  "silent text_in voice = Stop"

definition silent_env :: env where
  "silent_env = demo_env\<lparr>kpipeline_init := Inr (demo_pipeline\<lparr>run := silent\<rparr>)\<rparr>"

text \<open>A pipeline that yields one segment without samples.\<close>

definition hollow :: "pystr \<Rightarrow> pystr \<Rightarrow> tensor gen" where
  "hollow text_in voice = Yield [] Stop"

definition hollow_env :: env where
  "hollow_env = demo_env\<lparr>kpipeline_init := Inr (demo_pipeline\<lparr>run := hollow\<rparr>)\<rparr>"

text \<open>The request of the example scenario, and one whose text is white space.\<close>

definition bella_request :: request where
  "bella_request =
     \<lparr>req_model = Str (str ''kokoro''), req_voice = Str bella_display,
      req_text = Str (str ''Hello world'')\<rparr>"

definition blank_request :: request where
  "blank_request =
     \<lparr>req_model = Str (str ''kokoro''), req_voice = Null, req_text = Str [32, 9, 10, 0x3000]\<rparr>"

definition demo_path :: pystr where
  "demo_path = str ''/srv/app/static/output/kokoro_1700000000.wav''"

text \<open>
  The states the example request goes through: after the import of the module, after
  the load of the pipeline, and after the synthesis.
\<close>

definition module_world :: world where
  "module_world =
     fresh_world\<lparr>import_calls := [str ''models.kokoro''],
       model_modules := [str ''kokoro'' \<mapsto> Models_kokoro]\<rparr>"

definition loaded_world :: world where
  "loaded_world = module_world\<lparr>kokoro_pipeline := Some demo_pipeline, pipeline_inits := 1\<rparr>"

definition spoken_world :: world where
  "spoken_world =
     loaded_world\<lparr>pipeline_calls := [(str ''Hello world'', str ''af_bella'')],
       files := [demo_path \<mapsto> ([1, 2, 3, 4, 5], 24000)]\<rparr>"

text \<open>A number computed from a string, used to tell the keys of the tables apart.\<close>

definition fingerprint :: "pystr \<Rightarrow> nat" where
  "fingerprint s = foldl (\<lambda>a c. 2 * a + c) 0 s"

section \<open>Facts about the voice tables\<close>

lemmas emoji_defs = flag_US_def flag_GB_def flag_JP_def flag_CN_def flag_ES_def flag_FR_def
  flag_IN_def flag_IT_def flag_BR_def womens_def mens_def fire_def heart_def headphone_def

lemmas voice_mapping_items_eval =
  voice_mapping_items_def [unfolded str_def emoji_defs, simplified]

lemmas voice_formats_items_eval =
  voice_formats_items_def [unfolded str_def emoji_defs, simplified]

text \<open>
  The second table is the first one with every pair turned around, entry by entry.
\<close>

lemma formats_items_swap: "voice_formats_items = map prod.swap voice_mapping_items"
  unfolding voice_formats_items_eval voice_mapping_items_eval by simp

text \<open>
  No display name and no code is written twice. Comparing every pair of keys is slow;
  a number computed from each key that differs for all of them decides it.
\<close>

lemma distinct_display_names: "distinct (map fst voice_mapping_items)"
proof -
  have "distinct (map fingerprint (map fst voice_mapping_items))"
    unfolding voice_mapping_items_eval by (simp add: fingerprint_def)
  then show ?thesis by (simp only: distinct_map)
qed

lemma distinct_codes: "distinct (map snd voice_mapping_items)"
proof -
  have "distinct (map fingerprint (map snd voice_mapping_items))"
    unfolding voice_mapping_items_eval by (simp add: fingerprint_def)
  then show ?thesis by (simp only: distinct_map)
qed

text \<open>
  Every display name starts with a flag, every code with an ASCII letter: no code is
  a display name.
\<close>

lemma items_heads:
  "list_all (\<lambda>(d, c). d \<noteq> [] \<and> 1000 < hd d \<and> c \<noteq> [] \<and> hd c < 1000) voice_mapping_items"
  unfolding voice_mapping_items_eval by simp

lemma mapping_Some_iff: "get_voice_mapping d = Some c \<longleftrightarrow> (d, c) \<in> set voice_mapping_items"
proof -
  have "distinct (map fst (rev voice_mapping_items))"
    using distinct_display_names by (simp add: rev_map [symmetric])
  then have "map_of (rev voice_mapping_items) d = Some c \<longleftrightarrow> (d, c) \<in> set (rev voice_mapping_items)"
    by (rule map_of_eq_Some_iff)
  then show ?thesis by (simp add: get_voice_mapping_def dict_of_def)
qed

lemma formats_Some_iff: "voice_formats c = Some d \<longleftrightarrow> (d, c) \<in> set voice_mapping_items"
proof -
  have "map fst voice_formats_items = map snd voice_mapping_items"
    by (simp add: formats_items_swap)
  then have "distinct (map fst (rev voice_formats_items))"
    using distinct_codes by (simp add: rev_map [symmetric])
  then have "map_of (rev voice_formats_items) c = Some d \<longleftrightarrow> (c, d) \<in> set (rev voice_formats_items)"
    by (rule map_of_eq_Some_iff)
  then show ?thesis by (auto simp add: voice_formats_def dict_of_def formats_items_swap)
qed

lemma code_not_display_name:
  assumes "(d, c) \<in> set voice_mapping_items"
  shows "get_voice_mapping c = None"
proof (cases "get_voice_mapping c")
  case None
  then show ?thesis .
next
  case (Some x)
  then have "(c, x) \<in> set voice_mapping_items" by (simp add: mapping_Some_iff)
  then have "1000 < hd c" using items_heads by (auto simp add: list_all_iff)
  moreover have "hd c < 1000" using assms items_heads by (auto simp add: list_all_iff)
  ultimately show ?thesis by simp
qed

text \<open>The entry of the example scenario.\<close>

lemma bella_in_items: "(bella_display, str ''af_bella'') \<in> set voice_mapping_items"
  by (simp add: voice_mapping_items_def bella_display_def)

lemma resolve_bella:
  "resolve_voice (bella_display) = str ''af_bella''"
proof -
  have "get_voice_mapping (bella_display) =
      Some (str ''af_bella'')"
    using bella_in_items by (simp only: mapping_Some_iff)
  then show ?thesis by (simp add: resolve_voice_def)
qed

lemma format_loop_map:
  "format_loop raw acc =
     acc @ map (\<lambda>v. case voice_formats v of Some d \<Rightarrow> d | None \<Rightarrow> v @ str '' (Unknown)'') raw"
  by (induction raw arbitrary: acc) simp_all

section \<open>The voice catalog\<close>

text \<open>
  C9. The two tables are inverse to each other: a code has a display name in
  \<open>voice_formats\<close> exactly when \<open>_get_voice_mapping\<close> maps that display name to the
  code, so resolving the display name of a known code gives the code back.
\<close>

theorem voice_tables_inverse:
  "(voice_formats c = Some d \<longleftrightarrow> get_voice_mapping d = Some c) \<and>
   (voice_formats c = Some d \<longrightarrow> resolve_voice d = c)"
proof (intro conjI impI)
  show "voice_formats c = Some d \<longleftrightarrow> get_voice_mapping d = Some c"
    by (simp only: formats_Some_iff mapping_Some_iff)
next
  assume "voice_formats c = Some d"
  then have "get_voice_mapping d = Some c"
    by (simp only: formats_Some_iff mapping_Some_iff)
  then show "resolve_voice d = c" by (simp add: resolve_voice_def)
qed

theorem voice_tables_inverse_witness:
  "voice_formats (str ''af_bella'') =
     Some (bella_display) \<and>
   get_voice_mapping (bella_display) =
     Some (str ''af_bella'') \<and>
   resolve_voice (bella_display) = str ''af_bella''"
  using voice_tables_inverse [of "str ''af_bella''"
      "bella_display"] bella_in_items
  by (simp add: mapping_Some_iff)

text \<open>
  C4. Resolution returns a string for every string. A known display name gives its
  code, a known code (one with an entry in either table) gives itself, and a string
  that is in neither table gives itself.
\<close>

theorem resolve_voice_cases:
  "(get_voice_mapping d = Some c \<longrightarrow> resolve_voice d = c \<and> resolve_voice c = c) \<and>
   (voice_formats k \<noteq> None \<longrightarrow> resolve_voice k = k) \<and>
   (get_voice_mapping v = None \<and> voice_formats v = None \<longrightarrow> resolve_voice v = v)"
proof (intro conjI impI)
  assume h: "get_voice_mapping d = Some c"
  then show "resolve_voice d = c" by (simp add: resolve_voice_def)
  from h have "(d, c) \<in> set voice_mapping_items" by (simp add: mapping_Some_iff)
  then have "get_voice_mapping c = None" by (rule code_not_display_name)
  then show "resolve_voice c = c" by (simp add: resolve_voice_def)
next
  assume "voice_formats k \<noteq> None"
  then obtain d' where "voice_formats k = Some d'" by auto
  then have "(d', k) \<in> set voice_mapping_items" by (simp add: formats_Some_iff)
  then have "get_voice_mapping k = None" by (rule code_not_display_name)
  then show "resolve_voice k = k" by (simp add: resolve_voice_def)
next
  assume "get_voice_mapping v = None \<and> voice_formats v = None"
  then show "resolve_voice v = v" by (simp add: resolve_voice_def)
qed

theorem resolve_voice_cases_witness:
  "get_voice_mapping (bella_display) =
     Some (str ''af_bella'') \<and>
   voice_formats (str ''af_bella'') \<noteq> None \<and>
   get_voice_mapping (str ''my_voice'') = None \<and> voice_formats (str ''my_voice'') = None \<and>
   resolve_voice (bella_display) = str ''af_bella'' \<and>
   resolve_voice (str ''af_bella'') = str ''af_bella'' \<and>
   resolve_voice (str ''my_voice'') = str ''my_voice''"
proof -
  have a: "get_voice_mapping (bella_display) =
      Some (str ''af_bella'')"
    using bella_in_items by (simp add: mapping_Some_iff)
  have b: "voice_formats (str ''af_bella'') \<noteq> None"
    using bella_in_items by (simp add: formats_Some_iff [symmetric])
  have "list_all (\<lambda>(d, c). fingerprint d \<noteq> fingerprint (str ''my_voice'') \<and>
          fingerprint c \<noteq> fingerprint (str ''my_voice'')) voice_mapping_items"
    unfolding voice_mapping_items_eval by (simp add: fingerprint_def str_def)
  then have n: "\<And>x. (str ''my_voice'', x) \<notin> set voice_mapping_items"
      "\<And>x. (x, str ''my_voice'') \<notin> set voice_mapping_items"
    by (auto simp add: list_all_iff)
  have c: "get_voice_mapping (str ''my_voice'') = None"
    using n(1) by (cases "get_voice_mapping (str ''my_voice'')") (simp_all add: mapping_Some_iff)
  have d: "voice_formats (str ''my_voice'') = None"
    using n(2) by (cases "voice_formats (str ''my_voice'')") (simp_all add: formats_Some_iff)
  show ?thesis
    using resolve_voice_cases [of "bella_display"
        "str ''af_bella''" "str ''af_bella''" "str ''my_voice''"] a b c d
    by simp
qed

text \<open>
  C8. The formatted list has the length and the order of the raw codes: at every
  position stands the display name of the code at that position, or the code followed
  by \<open>(Unknown)\<close> when the table has no entry for it. Nothing is removed, so a code that
  occurs twice is formatted twice.
\<close>

theorem format_voices_pointwise:
  "length (format_voices raw) = length raw \<and>
   (\<forall>i < length raw.
      (\<forall>d. voice_formats (raw ! i) = Some d \<longrightarrow> format_voices raw ! i = d) \<and>
      (voice_formats (raw ! i) = None \<longrightarrow>
         format_voices raw ! i = raw ! i @ str '' (Unknown)''))"
  by (simp add: format_voices_def format_loop_map)

theorem format_voices_pointwise_witness:
  "voice_formats (str ''af_bella'') =
     Some (bella_display) \<and>
   voice_formats (str ''my_voice'') = None \<and>
   length (format_voices [str ''af_bella'', str ''my_voice'', str ''af_bella'']) = 3 \<and>
   format_voices [str ''af_bella'', str ''my_voice'', str ''af_bella''] ! 0 =
     bella_display \<and>
   format_voices [str ''af_bella'', str ''my_voice'', str ''af_bella''] ! 1 =
     str ''my_voice'' @ str '' (Unknown)'' \<and>
   format_voices [str ''af_bella'', str ''my_voice'', str ''af_bella''] ! 2 =
     bella_display"
proof -
  let ?raw = "[str ''af_bella'', str ''my_voice'', str ''af_bella'']"
  have a: "voice_formats (str ''af_bella'') =
      Some (bella_display)"
    using bella_in_items by (simp only: formats_Some_iff)
  have "list_all (\<lambda>(d, c). fingerprint c \<noteq> fingerprint (str ''my_voice'')) voice_mapping_items"
    unfolding voice_mapping_items_eval by (simp add: fingerprint_def str_def)
  then have "\<And>x. (x, str ''my_voice'') \<notin> set voice_mapping_items"
    by (auto simp add: list_all_iff)
  then have b: "voice_formats (str ''my_voice'') = None"
    by (cases "voice_formats (str ''my_voice'')") (simp_all add: formats_Some_iff)
  note t = format_voices_pointwise [of ?raw]
  have l: "length (format_voices ?raw) = 3"
    using t by simp
  have p: "\<And>i. i < 3 \<Longrightarrow>
      (\<forall>d. voice_formats (?raw ! i) = Some d \<longrightarrow> format_voices ?raw ! i = d) \<and>
      (voice_formats (?raw ! i) = None \<longrightarrow>
         format_voices ?raw ! i = ?raw ! i @ str '' (Unknown)'')"
    using t by simp
  have "format_voices ?raw ! 0 = bella_display"
    using p [of 0] a by simp
  moreover have "format_voices ?raw ! 1 = str ''my_voice'' @ str '' (Unknown)''"
    using p [of 1] b by simp
  moreover have "format_voices ?raw ! 2 = bella_display"
    using p [of 2] a by simp
  ultimately show ?thesis using a b l by simp
qed

section \<open>The backend\<close>

lemma load_kokoro_model_files: "files (snd (load_kokoro_model E w)) = files w"
  by (simp add: load_kokoro_model_def split: option.splits sum.splits exn.splits)

lemma load_kokoro_model_calls: "pipeline_calls (snd (load_kokoro_model E w)) = pipeline_calls w"
  by (simp add: load_kokoro_model_def split: option.splits sum.splits exn.splits)

lemma collect_segments_yields: "collect_segments (yields segs) acc = Inr (acc @ segs)"
  by (induction segs arbitrary: acc) simp_all

lemma torch_cat_concat: "torch_cat ts = concat ts"
  by (induction ts) simp_all

lemma yields_Stop_iff: "yields segs = Stop \<longleftrightarrow> segs = []"
  by (cases segs) simp_all

text \<open>
  C6. When the pipeline yields the segments \<open>s1, ..., sn\<close> (at least one) and the file
  can be written, the backend returns the output path, and the file at that path holds
  the samples of \<open>s1\<close>, then those of \<open>s2\<close>, and so on to \<open>sn\<close>, at 24000 Hz: the
  segments in the order of generation with nothing between them.
\<close>

theorem written_waveform_is_concatenation:
  assumes "load_kokoro_model E w = (Inr p, w1)"
    and "voice0 = (case voice of None \<Rightarrow> str ''af_alloy'' | Some v \<Rightarrow> v)"
    and "resolve_voice voice0 \<in> set (voices p)"
    and "run p text_in (resolve_voice voice0) = yields segs"
    and "segs \<noteq> []"
    and "sf_write_error E output_path = None"
  shows "fst (kokoro_generate_audio E text_in voice output_path w) = Inr output_path \<and>
         files (snd (kokoro_generate_audio E text_in voice output_path w)) output_path =
           Some (concat segs, 24000)"
  using assms
  by (simp add: kokoro_generate_audio_def generate_body_def collect_segments_yields
      torch_cat_concat)


section \<open>The registry\<close>

lemma get_model_module_keeps:
  "pipeline_calls (snd (get_model_module E n w)) = pipeline_calls w"
  "kokoro_pipeline (snd (get_model_module E n w)) = kokoro_pipeline w"
  "files (snd (get_model_module E n w)) = files w"
  "ledger (snd (get_model_module E n w)) = ledger w"
  by (simp_all add: get_model_module_def Let_def split: option.splits sum.splits exn.splits)

lemma MODELS_kokoro:
  "MODELS (str ''kokoro'') =
     Some \<lparr>info_name = str ''Kokoro'',
           info_description = str ''Fast lightweight TTS for local mac'',
           info_module = str ''models.kokoro''\<rparr>"
  by (simp add: MODELS_def dict_of_def)

lemma cache_registered_fresh: "cache_registered fresh_world"
  by (simp add: cache_registered_def fresh_world_def)

text \<open>
  C7, as the code has it. A name that is not in the registry fails with
  \<open>Unknown model\<close> (in every state that caches registered models only, which the
  function preserves). When the import raises \<open>ImportError\<close> the failure is wrapped
  as \<open>Failed to load model\<close>; an exception of another class leaves the function as it
  is; neither caches anything. After a successful call, a second call with the same
  name returns the same module and leaves the state as it is, whatever the import
  would do: the module is not imported again.
\<close>

theorem get_model_module_cases:
  "(cache_registered w \<and> MODELS n = None \<longrightarrow>
      get_model_module E n w = (Inl (ValueError (str ''Unknown model: '' @ n)), w)) \<and>
   (model_modules w n = None \<and> MODELS n = Some info \<and>
    import_module E (info_module info) = Inl (ImportError msg) \<longrightarrow>
      fst (get_model_module E n w) =
        Inl (RuntimeError (str ''Failed to load model '' @ n @ str '': '' @ msg)) \<and>
      model_modules (snd (get_model_module E n w)) = model_modules w) \<and>
   (model_modules w n = None \<and> MODELS n = Some info \<and>
    import_module E (info_module info) = Inl e \<and> (\<forall>msg'. e \<noteq> ImportError msg') \<longrightarrow>
      fst (get_model_module E n w) = Inl e \<and>
      model_modules (snd (get_model_module E n w)) = model_modules w) \<and>
   (get_model_module E n w = (Inr m, w1) \<longrightarrow> get_model_module E' n w1 = (Inr m, w1)) \<and>
   (cache_registered w \<longrightarrow> cache_registered (snd (get_model_module E n w)))"
proof (intro conjI impI)
  assume "cache_registered w \<and> MODELS n = None"
  then have "model_modules w n = None" "MODELS n = None"
    by (auto simp add: cache_registered_def)
  then show "get_model_module E n w = (Inl (ValueError (str ''Unknown model: '' @ n)), w)"
    by (simp add: get_model_module_def)
next
  assume "model_modules w n = None \<and> MODELS n = Some info \<and>
    import_module E (info_module info) = Inl (ImportError msg)"
  then show "fst (get_model_module E n w) =
      Inl (RuntimeError (str ''Failed to load model '' @ n @ str '': '' @ msg))"
    and "model_modules (snd (get_model_module E n w)) = model_modules w"
    by (simp_all add: get_model_module_def)
next
  assume "model_modules w n = None \<and> MODELS n = Some info \<and>
    import_module E (info_module info) = Inl e \<and> (\<forall>msg'. e \<noteq> ImportError msg')"
  then show "fst (get_model_module E n w) = Inl e"
    and "model_modules (snd (get_model_module E n w)) = model_modules w"
    by (cases e; simp add: get_model_module_def)+
next
  assume "get_model_module E n w = (Inr m, w1)"
  then have "model_modules w1 n = Some m"
    by (auto simp add: get_model_module_def Let_def split: option.splits sum.splits exn.splits)
  then show "get_model_module E' n w1 = (Inr m, w1)"
    by (simp add: get_model_module_def)
next
  assume "cache_registered w"
  then show "cache_registered (snd (get_model_module E n w))"
    by (auto simp add: cache_registered_def get_model_module_def Let_def
        split: option.splits sum.splits exn.splits)
qed

section \<open>The endpoints\<close>

lemma strip_Nil_iff: "strip s = [] \<longleftrightarrow> (\<forall>c \<in> set s. py_isspace c)"
proof
  assume "strip s = []"
  then have all: "\<forall>c \<in> set (dropWhile py_isspace s). py_isspace c"
    by (simp add: strip_def dropWhile_eq_Nil_conv)
  have "dropWhile py_isspace s = []"
  proof (rule ccontr)
    assume ne: "dropWhile py_isspace s \<noteq> []"
    then have "\<not> py_isspace (hd (dropWhile py_isspace s))" by (rule hd_dropWhile)
    moreover have "hd (dropWhile py_isspace s) \<in> set (dropWhile py_isspace s)"
      using ne by simp
    ultimately show False using all by blast
  qed
  then show "\<forall>c \<in> set s. py_isspace c" by (simp add: dropWhile_eq_Nil_conv)
next
  assume "\<forall>c \<in> set s. py_isspace c"
  then have d: "dropWhile py_isspace s = []" by (simp add: dropWhile_eq_Nil_conv)
  show "strip s = []" unfolding strip_def d by simp
qed

text \<open>
  C5. A request whose text (the empty string when the field is missing) is empty
  after stripping is answered with status 400 and an error payload, and the state is
  the one from before: no module imported, no pipeline loaded or called, no file and
  no ledger row written.
\<close>

theorem blank_text_rejected:
  assumes "data_get_default (req_text data) [] = Some raw"
    and "strip raw = []"
  shows "generate_audio E data w = ((ErrorBody (str ''Invalid model''), 400), w) \<or>
         generate_audio E data w = ((ErrorBody (str ''Text is required''), 400), w)"
  using assms by (simp add: generate_audio_def split: option.splits)

lemma log_generation_keeps:
  "pipeline_calls (snd (log_generation E mo sp tx pa w)) = pipeline_calls w"
  "files (snd (log_generation E mo sp tx pa w)) = files w"
  by (simp_all add: log_generation_def Let_def split: option.splits)

text \<open>What \<open>generate_audio\<close> does once the request is valid and the module is there.\<close>

lemma generate_audio_valid:
  assumes "data_get_default (req_text data) [] = Some raw"
    and "strip raw \<noteq> []"
    and "data_get (req_model data) = Some mn"
    and "mn \<noteq> []"
    and "MODELS mn \<noteq> None"
    and "get_model_module E mn w = (Inr m, w1)"
  shows "generate_audio E data w =
     (let filename = mn @ str ''_'' @ str_nat (now E) @ str ''.wav'';
          output_path = path_join (OUTPUT_DIR E) filename
      in case generate_inner E m mn (data_get (req_voice data)) (strip raw) filename
                output_path w1 of
           (Inr p, w2) \<Rightarrow> ((AudioBody p, 200), w2)
         | (Inl e, w2) \<Rightarrow>
             ((ErrorBody (exn_str e), 500), w2\<lparr>error_log := error_log w2 @ [str ''.2f'']\<rparr>))"
  using assms by (auto simp add: generate_audio_def Let_def)


text \<open>
  C3, as the code has it. The answer of the voices endpoint is a list of voices with
  status 200 or an error payload with status 500. It is the error payload exactly when
  \<open>get_model_module\<close> raises: for a name that is not registered, and when the import
  of the backend module fails. When the module is there and the lazy load of the
  pipeline fails, the answer is the list of the four default display names with
  status 200; when the pipeline loads, it is the formatted list of its voices.
\<close>

theorem get_voices_cases:
  "((\<exists>vs. fst (get_voices E n w) = (VoicesBody vs, 200)) \<or>
    (\<exists>msg. fst (get_voices E n w) = (ErrorBody msg, 500))) \<and>
   (cache_registered w \<and> MODELS n = None \<longrightarrow>
      fst (get_voices E n w) = (ErrorBody (str ''Unknown model: '' @ n), 500)) \<and>
   (fst (get_model_module E n w) = Inl e \<longrightarrow>
      fst (get_voices E n w) = (ErrorBody (exn_str e), 500)) \<and>
   (get_model_module E n w = (Inr m, w1) \<and> fst (load_kokoro_model E w1) = Inl e' \<longrightarrow>
      fst (get_voices E n w) = (VoicesBody fallback_voices, 200)) \<and>
   (get_model_module E n w = (Inr m, w1) \<and> fst (load_kokoro_model E w1) = Inr p \<longrightarrow>
      fst (get_voices E n w) = (VoicesBody (format_voices (voices p)), 200))"
proof (intro conjI impI)
  show "(\<exists>vs. fst (get_voices E n w) = (VoicesBody vs, 200)) \<or>
    (\<exists>msg. fst (get_voices E n w) = (ErrorBody msg, 500))"
    by (cases "get_model_module E n w"; cases "fst (get_model_module E n w)")
      (auto simp add: get_voices_def split: prod.splits)
next
  assume "cache_registered w \<and> MODELS n = None"
  then have "model_modules w n = None" "MODELS n = None"
    by (auto simp add: cache_registered_def)
  then show "fst (get_voices E n w) = (ErrorBody (str ''Unknown model: '' @ n), 500)"
    by (simp add: get_voices_def get_model_module_def)
next
  assume "fst (get_model_module E n w) = Inl e"
  then show "fst (get_voices E n w) = (ErrorBody (exn_str e), 500)"
    by (cases "get_model_module E n w") (simp add: get_voices_def)
next
  assume "get_model_module E n w = (Inr m, w1) \<and> fst (load_kokoro_model E w1) = Inl e'"
  then show "fst (get_voices E n w) = (VoicesBody fallback_voices, 200)"
    by (cases m; cases "load_kokoro_model E w1") (simp add: get_voices_def list_voices_def)
next
  assume "get_model_module E n w = (Inr m, w1) \<and> fst (load_kokoro_model E w1) = Inr p"
  then show "fst (get_voices E n w) = (VoicesBody (format_voices (voices p)), 200)"
    by (cases m; cases "load_kokoro_model E w1") (simp add: get_voices_def list_voices_def)
qed

section \<open>The scenarios, step by step\<close>

lemma strip_hello: "strip (str ''Hello world'') = str ''Hello world''"
  by (simp add: strip_def str_def py_isspace_def)

lemma hello_nonempty: "str ''Hello world'' \<noteq> []"
  by (simp add: str_def)

lemma kokoro_nonempty: "str ''kokoro'' \<noteq> []"
  by (simp add: str_def)

lemma bella_display_nonempty: "bella_display \<noteq> []"
  by (simp add: bella_display_def flag_US_def)

lemma bella_display_not_code: "bella_display \<noteq> str ''af_bella''"
  by (simp add: bella_display_def flag_US_def str_def)

lemma str_nat_demo: "str_nat 1700000000 = str ''1700000000''"
  by (simp add: str_nat.simps str_def)

lemma demo_path_eq:
  "OUTPUT_DIR E = str ''/srv/app/static/output'' \<Longrightarrow> now E = 1700000000 \<Longrightarrow>
   path_join (OUTPUT_DIR E) (str ''kokoro'' @ str ''_'' @ str_nat (now E) @ str ''.wav'')
     = demo_path"
  by (simp add: path_join_def str_nat_demo demo_path_def str_def)

lemma import_step:
  "import_module E = demo_import \<Longrightarrow>
   get_model_module E (str ''kokoro'') fresh_world = (Inr Models_kokoro, module_world)"
  by (simp add: get_model_module_def MODELS_kokoro fresh_world_def demo_import_def
      module_world_def)

lemma load_step:
  "kpipeline_init E = Inr p \<Longrightarrow>
   load_kokoro_model E module_world =
     (Inr p, module_world\<lparr>kokoro_pipeline := Some p, pipeline_inits := 1\<rparr>)"
  by (simp add: load_kokoro_model_def module_world_def fresh_world_def)

lemma bella_code_loaded: "str ''af_bella'' \<in> set (voices demo_pipeline)"
  by (simp add: demo_pipeline_def)

lemma demo_run: "run demo_pipeline t v = yields [[1, 2], [3], [4, 5]]"
  by (simp add: demo_pipeline_def three_segments_def)

lemma backend_step:
  assumes "kpipeline_init E = Inr demo_pipeline" and "sf_write_error E = no_write_error"
  shows "kokoro_generate_audio E (str ''Hello world'') (Some bella_display) demo_path module_world
           = (Inr demo_path, spoken_world)"
proof -
  have l: "load_kokoro_model E module_world = (Inr demo_pipeline, loaded_world)"
    using assms(1) by (simp add: load_step loaded_world_def)
  show ?thesis
    unfolding kokoro_generate_audio_def generate_body_def l
    by (simp add: Let_def bella_code_loaded demo_run collect_segments_yields resolve_bella
        assms no_write_error_def spoken_world_def loaded_world_def module_world_def
        fresh_world_def)
qed

lemma demo_env_fields:
  "import_module demo_env = demo_import"
  "kpipeline_init demo_env = Inr demo_pipeline"
  "sf_write_error demo_env = no_write_error"
  "open_log_error demo_env = None"
  "now demo_env = 1700000000"
  "OUTPUT_DIR demo_env = str ''/srv/app/static/output''"
  "strftime_now demo_env = str ''2023-11-14 22:13:20''"
  "fmt2 demo_env = demo_fmt2"
  by (simp_all add: demo_env_def)

lemma bella_request_fields:
  "data_get_default (req_text bella_request) [] = Some (str ''Hello world'')"
  "data_get (req_model bella_request) = Some (str ''kokoro'')"
  "data_get (req_voice bella_request) = Some bella_display"
  by (simp_all add: bella_request_def)

text \<open>
  The example request in surroundings that differ from the working ones at most in
  the ledger: what the endpoint does in terms of the ledger step.
\<close>

lemma bella_request_unfolded:
  assumes "import_module E = demo_import"
    and "kpipeline_init E = Inr demo_pipeline"
    and "sf_write_error E = no_write_error"
    and "now E = 1700000000"
    and "OUTPUT_DIR E = str ''/srv/app/static/output''"
  shows "generate_audio E bella_request fresh_world =
     (case log_generation E (str ''kokoro'') (Some bella_display) (str ''Hello world'')
             demo_path spoken_world of
        (Inl e, w2) \<Rightarrow>
          ((ErrorBody (exn_str e), 500), w2\<lparr>error_log := error_log w2 @ [str ''.2f'']\<rparr>)
      | (Inr u, w2) \<Rightarrow>
          ((AudioBody \<lparr>audio_url = str ''/static/output/'' @ str ''kokoro'' @ str ''_'' @
                         str_nat 1700000000 @ str ''.wav'',
                       payload_model = str ''kokoro'',
                       payload_voice = Some bella_display,
                       audio_duration = round2 E (probe_duration spoken_world demo_path)\<rparr>,
            200), w2))"
proof -
  have v: "generate_audio E bella_request fresh_world =
     (let filename = str ''kokoro'' @ str ''_'' @ str_nat (now E) @ str ''.wav'';
          output_path = path_join (OUTPUT_DIR E) filename
      in case generate_inner E Models_kokoro (str ''kokoro'') (data_get (req_voice bella_request))
                (strip (str ''Hello world'')) filename output_path module_world of
           (Inr p, w2) \<Rightarrow> ((AudioBody p, 200), w2)
         | (Inl e, w2) \<Rightarrow>
             ((ErrorBody (exn_str e), 500), w2\<lparr>error_log := error_log w2 @ [str ''.2f'']\<rparr>))"
    by (rule generate_audio_valid)
      (simp_all add: bella_request_fields strip_hello hello_nonempty kokoro_nonempty
        MODELS_kokoro import_step assms)
  have p: "path_join (OUTPUT_DIR E) (str ''kokoro'' @ str ''_'' @ str_nat (now E) @ str ''.wav'')
      = demo_path"
    by (rule demo_path_eq) (simp_all add: assms)
  show ?thesis
    unfolding v Let_def p generate_inner_def
    by (simp add: bella_request_fields strip_hello backend_step assms
        split: prod.splits sum.splits)
qed





lemma demo_result:
  "generate_audio demo_env bella_request fresh_world =
     ((AudioBody \<lparr>audio_url = str ''/static/output/'' @ str ''kokoro'' @ str ''_'' @
                     str_nat 1700000000 @ str ''.wav'',
                   payload_model = str ''kokoro'',
                   payload_voice = Some bella_display,
                   audio_duration = round2 demo_env (probe_duration spoken_world demo_path)\<rparr>,
       200),
      spoken_world\<lparr>ledger := Some [ledger_header,
        [str ''2023-11-14 22:13:20'', str ''kokoro'', bella_display, str ''Hello world'',
         str ''0.00'', demo_path]]\<rparr>)"
proof -
  have l: "ledger spoken_world = None"
    by (simp add: spoken_world_def loaded_world_def module_world_def fresh_world_def)
  have n: "\<not> 100 < length (str ''Hello world'')"
    by (simp add: str_def)
  show ?thesis
    by (simp add: bella_request_unfolded demo_env_fields log_generation_def l n
        bella_display_nonempty demo_fmt2_def)
qed



text \<open>
  C2 as stated fails in its second half: the row written for the example request has
  the display name, as the caller sent it, in the speaker field.
\<close>

theorem bella_ledger_row_has_display_name:
  "ledger (snd (generate_audio demo_env bella_request fresh_world)) =
     Some [ledger_header,
       [str ''2023-11-14 22:13:20'', str ''kokoro'', bella_display, str ''Hello world'',
        str ''0.00'', demo_path]] \<and>
   bella_display \<noteq> str ''af_bella''"
  by (simp add: demo_result bella_display_not_code)

text \<open>
  C2, as the code has it. For the example request, when the module is there, the
  pipeline is loaded and has the voice \<open>af_bella\<close>: the pipeline is called once, with
  the text and the code \<open>af_bella\<close>; and when the request succeeds, the last row of the
  ledger has six fields of which the speaker is the display name of the request, and
  the payload has that display name as its voice.
\<close>

theorem bella_request_flow:
  assumes "get_model_module E (str ''kokoro'') w = (Inr m, w1)"
    and "load_kokoro_model E w1 = (Inr p, w2)"
    and "str ''af_bella'' \<in> set (voices p)"
  shows "pipeline_calls (snd (generate_audio E bella_request w)) =
           pipeline_calls w @ [(str ''Hello world'', str ''af_bella'')] \<and>
         (fst (generate_audio E bella_request w) = (AudioBody pl, 200) \<longrightarrow>
            payload_voice pl = Some bella_display \<and>
            (\<exists>rows row. ledger (snd (generate_audio E bella_request w)) = Some (rows @ [row]) \<and>
               length row = 6 \<and> row ! 2 = bella_display))"
proof -
  have c1: "pipeline_calls w1 = pipeline_calls w"
    using get_model_module_keeps(1) [of E "str ''kokoro''" w] assms(1) by simp
  have c2: "pipeline_calls w2 = pipeline_calls w1"
    using load_kokoro_model_calls [of E w1] assms(2) by simp
  have m: "m = Models_kokoro" by (cases m) simp
  have v: "generate_audio E bella_request w =
     (let filename = str ''kokoro'' @ str ''_'' @ str_nat (now E) @ str ''.wav'';
          output_path = path_join (OUTPUT_DIR E) filename
      in case generate_inner E m (str ''kokoro'') (data_get (req_voice bella_request))
                (strip (str ''Hello world'')) filename output_path w1 of
           (Inr p, w2) \<Rightarrow> ((AudioBody p, 200), w2)
         | (Inl e, w2) \<Rightarrow>
             ((ErrorBody (exn_str e), 500), w2\<lparr>error_log := error_log w2 @ [str ''.2f'']\<rparr>))"
    by (rule generate_audio_valid)
      (simp_all add: bella_request_fields strip_hello hello_nonempty kokoro_nonempty
        MODELS_kokoro assms)
  show ?thesis
    unfolding v Let_def generate_inner_def m module_generate_audio.simps
      kokoro_generate_audio_def generate_body_def assms(2)
    using assms(3)
    by (auto simp add: bella_request_fields strip_hello resolve_bella c1 c2 Let_def
        log_generation_def bella_display_nonempty
        split: sum.splits option.splits)
qed

theorem bella_request_flow_witness:
  "str ''af_bella'' \<in> set (voices demo_pipeline) \<and>
   pipeline_calls (snd (generate_audio demo_env bella_request fresh_world)) =
     [(str ''Hello world'', str ''af_bella'')] \<and>
   (\<exists>rows row. ledger (snd (generate_audio demo_env bella_request fresh_world)) =
      Some (rows @ [row]) \<and> length row = 6 \<and> row ! 2 = bella_display)"
proof -
  have l: "load_kokoro_model demo_env module_world = (Inr demo_pipeline, loaded_world)"
    by (simp add: load_step demo_env_fields loaded_world_def)
  have c: "pipeline_calls fresh_world = []"
    by (simp add: fresh_world_def)
  note t = bella_request_flow [of demo_env fresh_world Models_kokoro module_world
      demo_pipeline loaded_world
      "\<lparr>audio_url = str ''/static/output/'' @ str ''kokoro'' @ str ''_'' @
                     str_nat 1700000000 @ str ''.wav'',
        payload_model = str ''kokoro'',
        payload_voice = Some bella_display,
        audio_duration = round2 demo_env (probe_duration spoken_world demo_path)\<rparr>",
      OF import_step l bella_code_loaded]
  have f: "fst (generate_audio demo_env bella_request fresh_world) =
      (AudioBody \<lparr>audio_url = str ''/static/output/'' @ str ''kokoro'' @ str ''_'' @
                     str_nat 1700000000 @ str ''.wav'',
        payload_model = str ''kokoro'',
        payload_voice = Some bella_display,
        audio_duration = round2 demo_env (probe_duration spoken_world demo_path)\<rparr>, 200)"
    by (simp add: demo_result)
  show ?thesis
    using t f c bella_code_loaded by (simp add: demo_env_fields)
qed

section \<open>The remaining scenarios\<close>

lemma nope_unregistered: "MODELS (str ''nope'') = None"
  by (simp add: MODELS_def dict_of_def str_def)

lemma other_env_fields:
  "import_module no_weights_env = demo_import"
  "kpipeline_init no_weights_env = Inl (OSError (str ''weights not found''))"
  "import_module broken_library_env = broken_library"
  "import_module missing_library_env = missing_library"
  "kpipeline_init silent_env = Inr (demo_pipeline\<lparr>run := silent\<rparr>)"
  by (simp_all add: no_weights_env_def broken_library_env_def missing_library_env_def
      silent_env_def demo_env_def)

lemma module_world_uncached: "model_modules fresh_world (str ''kokoro'') = None"
  by (simp add: fresh_world_def)

lemma no_weights_load:
  "load_kokoro_model no_weights_env module_world =
     (Inl (RuntimeError (str ''Failed to load Kokoro model: '' @ str ''weights not found'')),
      module_world)"
  by (simp add: load_kokoro_model_def other_env_fields module_world_def fresh_world_def)

lemma no_weights_voices:
  "get_voices no_weights_env (str ''kokoro'') fresh_world =
     ((VoicesBody fallback_voices, 200), module_world)"
  by (simp add: get_voices_def import_step other_env_fields list_voices_def no_weights_load)

text \<open>
  C3 as stated fails: when the module is there and the lazy load of the pipeline
  fails, the endpoint answers with the default voices and status 200.
\<close>

theorem failed_load_gives_fallback_voices:
  "fst (load_kokoro_model no_weights_env module_world) =
     Inl (RuntimeError (str ''Failed to load Kokoro model: '' @ str ''weights not found'')) \<and>
   fst (get_voices no_weights_env (str ''kokoro'') fresh_world) =
     (VoicesBody fallback_voices, 200)"
  by (simp add: no_weights_load no_weights_voices)

theorem get_voices_cases_witness:
  "fst (get_voices demo_env (str ''nope'') fresh_world) =
     (ErrorBody (str ''Unknown model: '' @ str ''nope''), 500) \<and>
   fst (get_voices missing_library_env (str ''kokoro'') fresh_world) =
     (ErrorBody (str ''Failed to load model '' @ str ''kokoro'' @ str '': '' @
        str ''No module named torch''), 500) \<and>
   fst (get_voices no_weights_env (str ''kokoro'') fresh_world) =
     (VoicesBody fallback_voices, 200) \<and>
   fst (get_voices demo_env (str ''kokoro'') fresh_world) =
     (VoicesBody (format_voices [str ''af_alloy'', str ''af_bella'']), 200)"
proof -
  have a: "fst (get_voices demo_env (str ''nope'') fresh_world) =
      (ErrorBody (str ''Unknown model: '' @ str ''nope''), 500)"
    using get_voices_cases [of demo_env "str ''nope''" fresh_world]
      cache_registered_fresh nope_unregistered
    by simp
  have "fst (get_model_module missing_library_env (str ''kokoro'') fresh_world) =
      Inl (RuntimeError (str ''Failed to load model '' @ str ''kokoro'' @ str '': '' @
        str ''No module named torch''))"
    by (simp add: get_model_module_def module_world_uncached MODELS_kokoro other_env_fields
        missing_library_def)
  then have b: "fst (get_voices missing_library_env (str ''kokoro'') fresh_world) =
      (ErrorBody (str ''Failed to load model '' @ str ''kokoro'' @ str '': '' @
        str ''No module named torch''), 500)"
    using get_voices_cases [of missing_library_env "str ''kokoro''" fresh_world
        "RuntimeError (str ''Failed to load model '' @ str ''kokoro'' @ str '': '' @
           str ''No module named torch'')"]
    by simp
  have c: "fst (get_voices no_weights_env (str ''kokoro'') fresh_world) =
      (VoicesBody fallback_voices, 200)"
    using get_voices_cases [of no_weights_env "str ''kokoro''" fresh_world _ Models_kokoro
        module_world
        "RuntimeError (str ''Failed to load Kokoro model: '' @ str ''weights not found'')"]
    by (simp add: import_step other_env_fields no_weights_load)
  have "fst (get_voices demo_env (str ''kokoro'') fresh_world) =
      (VoicesBody (format_voices (voices demo_pipeline)), 200)"
    using get_voices_cases [of demo_env "str ''kokoro''" fresh_world _ Models_kokoro
        module_world _ demo_pipeline]
    by (simp add: import_step demo_env_fields load_step)
  then have d: "fst (get_voices demo_env (str ''kokoro'') fresh_world) =
      (VoicesBody (format_voices [str ''af_alloy'', str ''af_bella'']), 200)"
    by (simp add: demo_pipeline_def)
  show ?thesis using a b c d by simp
qed

theorem blank_text_rejected_witness:
  "data_get_default (req_text blank_request) [] = Some [32, 9, 10, 0x3000] \<and>
   strip [32, 9, 10, 0x3000] = [] \<and>
   generate_audio demo_env blank_request fresh_world =
     ((ErrorBody (str ''Text is required''), 400), fresh_world)"
proof -
  have a: "data_get_default (req_text blank_request) [] = Some [32, 9, 10, 0x3000]"
    by (simp add: blank_request_def)
  have b: "strip [32, 9, 10, 0x3000] = []"
    by (simp add: strip_def py_isspace_def)
  have ne: "str ''Text is required'' \<noteq> str ''Invalid model''"
    by (simp add: str_def)
  have c: "generate_audio demo_env blank_request fresh_world \<noteq>
      ((ErrorBody (str ''Invalid model''), 400), fresh_world)"
    by (simp add: generate_audio_def blank_request_def b kokoro_nonempty MODELS_kokoro ne)
  show ?thesis
    using blank_text_rejected [OF a b, of demo_env fresh_world] a b c by simp
qed

theorem written_waveform_is_concatenation_witness:
  "run demo_pipeline (str ''Hello world'') (resolve_voice bella_display) =
     yields [[1, 2], [3], [4, 5]] \<and>
   fst (kokoro_generate_audio demo_env (str ''Hello world'') (Some bella_display) demo_path
          module_world) = Inr demo_path \<and>
   files (snd (kokoro_generate_audio demo_env (str ''Hello world'') (Some bella_display)
                 demo_path module_world)) demo_path =
     Some ([1, 2] @ [3] @ [4, 5], 24000)"
proof -
  have l: "load_kokoro_model demo_env module_world = (Inr demo_pipeline, loaded_world)"
    by (simp add: load_step demo_env_fields loaded_world_def)
  have v: "resolve_voice bella_display \<in> set (voices demo_pipeline)"
    by (simp add: resolve_bella bella_code_loaded)
  have s: "sf_write_error demo_env demo_path = None"
    by (simp add: demo_env_fields no_write_error_def)
  show ?thesis
    using written_waveform_is_concatenation [of demo_env module_world demo_pipeline
        loaded_world bella_display "Some bella_display" "str ''Hello world''"
        "[[1, 2], [3], [4, 5]]" demo_path, OF l _ v demo_run _ s]
    by (simp add: demo_run)
qed


text \<open>
  C7 as stated fails in its second part: an exception of the import that is not an
  \<open>ImportError\<close> leaves \<open>get_model_module\<close> as it is, not wrapped.
\<close>

theorem broken_library_not_wrapped:
  "fst (get_model_module broken_library_env (str ''kokoro'') fresh_world) =
     Inl (OSError (str ''cannot open shared object file''))"
  by (simp add: get_model_module_def module_world_uncached MODELS_kokoro other_env_fields
      broken_library_def)

theorem get_model_module_cases_witness:
  "get_model_module demo_env (str ''nope'') fresh_world =
     (Inl (ValueError (str ''Unknown model: '' @ str ''nope'')), fresh_world) \<and>
   fst (get_model_module missing_library_env (str ''kokoro'') fresh_world) =
     Inl (RuntimeError (str ''Failed to load model '' @ str ''kokoro'' @ str '': '' @
       str ''No module named torch'')) \<and>
   fst (get_model_module broken_library_env (str ''kokoro'') fresh_world) =
     Inl (OSError (str ''cannot open shared object file'')) \<and>
   get_model_module demo_env (str ''kokoro'') fresh_world = (Inr Models_kokoro, module_world) \<and>
   get_model_module broken_library_env (str ''kokoro'') module_world =
     (Inr Models_kokoro, module_world) \<and>
   cache_registered (snd (get_model_module demo_env (str ''kokoro'') fresh_world))"
proof -
  let ?info = "\<lparr>info_name = str ''Kokoro'',
      info_description = str ''Fast lightweight TTS for local mac'',
      info_module = str ''models.kokoro''\<rparr>"
  have a: "get_model_module demo_env (str ''nope'') fresh_world =
      (Inl (ValueError (str ''Unknown model: '' @ str ''nope'')), fresh_world)"
    using get_model_module_cases [of fresh_world "str ''nope''" demo_env ?info "[]"
        "OSError []" Models_kokoro fresh_world demo_env, THEN conjunct1]
      cache_registered_fresh nope_unregistered
    by simp
  have b: "fst (get_model_module missing_library_env (str ''kokoro'') fresh_world) =
      Inl (RuntimeError (str ''Failed to load model '' @ str ''kokoro'' @ str '': '' @
        str ''No module named torch''))"
    using get_model_module_cases [of fresh_world "str ''kokoro''" missing_library_env ?info
        "str ''No module named torch''" "OSError []" Models_kokoro fresh_world demo_env,
        THEN conjunct2, THEN conjunct1]
    by (simp add: module_world_uncached MODELS_kokoro other_env_fields missing_library_def)
  have c: "fst (get_model_module broken_library_env (str ''kokoro'') fresh_world) =
      Inl (OSError (str ''cannot open shared object file''))"
    using get_model_module_cases [of fresh_world "str ''kokoro''" broken_library_env ?info
        "[]" "OSError (str ''cannot open shared object file'')" Models_kokoro fresh_world
        demo_env, THEN conjunct2, THEN conjunct2, THEN conjunct1]
    by (simp add: module_world_uncached MODELS_kokoro other_env_fields broken_library_def)
  have d: "get_model_module demo_env (str ''kokoro'') fresh_world =
      (Inr Models_kokoro, module_world)"
    by (simp add: import_step demo_env_fields)
  have e: "get_model_module broken_library_env (str ''kokoro'') module_world =
      (Inr Models_kokoro, module_world)"
    using get_model_module_cases [of fresh_world "str ''kokoro''" demo_env ?info "[]"
        "OSError []" Models_kokoro module_world broken_library_env,
        THEN conjunct2, THEN conjunct2, THEN conjunct2, THEN conjunct1] d
    by simp
  have f: "cache_registered (snd (get_model_module demo_env (str ''kokoro'') fresh_world))"
    using get_model_module_cases [of fresh_world "str ''kokoro''" demo_env ?info "[]"
        "OSError []" Models_kokoro module_world demo_env,
        THEN conjunct2, THEN conjunct2, THEN conjunct2, THEN conjunct2]
      cache_registered_fresh
    by simp
  show ?thesis using a b c d e f by simp
qed

section \<open>Segments without samples\<close>

lemma hollow_env_fields:
  "kpipeline_init hollow_env = Inr (demo_pipeline\<lparr>run := hollow\<rparr>)"
  "sf_write_error hollow_env = no_write_error"
  by (simp_all add: hollow_env_def demo_env_def)

lemma hollow_load:
  "load_kokoro_model hollow_env module_world =
     (Inr (demo_pipeline\<lparr>run := hollow\<rparr>),
      module_world\<lparr>kokoro_pipeline := Some (demo_pipeline\<lparr>run := hollow\<rparr>),
        pipeline_inits := 1\<rparr>)"
  by (simp add: load_step hollow_env_fields)

lemma hollow_voice: "resolve_voice bella_display \<in> set (voices (demo_pipeline\<lparr>run := hollow\<rparr>))"
  by (simp add: resolve_bella demo_pipeline_def)

lemma hollow_run:
  "run (demo_pipeline\<lparr>run := hollow\<rparr>) (str ''Hello world'') (resolve_voice bella_display) =
     yields [[]]"
  by (simp add: hollow_def)

text \<open>
  C10 as stated fails in its closing words: the backend tests whether the list of
  segments is empty, not whether the segments hold samples. A pipeline that yields one
  segment without samples gets the path back, and the file holds no sample.
\<close>

theorem hollow_segment_writes_empty_waveform:
  "fst (kokoro_generate_audio hollow_env (str ''Hello world'') (Some bella_display) demo_path
          module_world) = Inr demo_path \<and>
   files (snd (kokoro_generate_audio hollow_env (str ''Hello world'') (Some bella_display)
                 demo_path module_world)) demo_path = Some ([], 24000)"
  unfolding kokoro_generate_audio_def generate_body_def hollow_load
  using hollow_voice hollow_run
  by (simp add: Let_def hollow_env_fields no_write_error_def)

text \<open>
  C10, as the code has it. With the pipeline loaded and the voice available: when the
  pipeline yields no segment at all, the backend raises the error
  \<open>Kokoro generation failed: No audio generated from Kokoro pipeline\<close> and the files
  on disk are the ones from before the call; when it yields at least one segment and
  none of the segments holds a sample, the backend returns the path and writes a file
  without samples; and whenever the files change, at least one segment was yielded
  and the file at the output path holds the segments joined.
\<close>

theorem segments_decide_the_file:
  assumes "load_kokoro_model E w = (Inr p, w1)"
    and "voice0 = (case voice of None \<Rightarrow> str ''af_alloy'' | Some v \<Rightarrow> v)"
    and "resolve_voice voice0 \<in> set (voices p)"
  shows "(run p text_in (resolve_voice voice0) = Stop \<longrightarrow>
            fst (kokoro_generate_audio E text_in voice output_path w) =
              Inl (RuntimeError
                (str ''Kokoro generation failed: '' @
                 str ''No audio generated from Kokoro pipeline'')) \<and>
            files (snd (kokoro_generate_audio E text_in voice output_path w)) = files w) \<and>
         (run p text_in (resolve_voice voice0) = yields segs \<and> segs \<noteq> [] \<and>
          (\<forall>s \<in> set segs. s = []) \<and> sf_write_error E output_path = None \<longrightarrow>
            fst (kokoro_generate_audio E text_in voice output_path w) = Inr output_path \<and>
            files (snd (kokoro_generate_audio E text_in voice output_path w)) output_path =
              Some ([], 24000)) \<and>
         (files (snd (kokoro_generate_audio E text_in voice output_path w)) \<noteq> files w \<longrightarrow>
            (\<exists>segs'. segs' \<noteq> [] \<and>
               collect_segments (run p text_in (resolve_voice voice0)) [] = Inr segs' \<and>
               files (snd (kokoro_generate_audio E text_in voice output_path w)) =
                 (files w)(output_path \<mapsto> (concat segs', 24000))))"
proof -
  have f: "files w1 = files w"
    using load_kokoro_model_files [of E w] assms(1) by simp
  have a: "run p text_in (resolve_voice voice0) = Stop \<longrightarrow>
      fst (kokoro_generate_audio E text_in voice output_path w) =
        Inl (RuntimeError
          (str ''Kokoro generation failed: '' @
           str ''No audio generated from Kokoro pipeline'')) \<and>
      files (snd (kokoro_generate_audio E text_in voice output_path w)) = files w"
    using assms f by (simp add: kokoro_generate_audio_def generate_body_def)
  have b: "run p text_in (resolve_voice voice0) = yields segs \<and> segs \<noteq> [] \<and>
      (\<forall>s \<in> set segs. s = []) \<and> sf_write_error E output_path = None \<longrightarrow>
      fst (kokoro_generate_audio E text_in voice output_path w) = Inr output_path \<and>
      files (snd (kokoro_generate_audio E text_in voice output_path w)) output_path =
        Some ([], 24000)"
    using assms
    by (simp add: kokoro_generate_audio_def generate_body_def collect_segments_yields
        torch_cat_concat)
  have c: "files (snd (kokoro_generate_audio E text_in voice output_path w)) \<noteq> files w \<longrightarrow>
      (\<exists>segs'. segs' \<noteq> [] \<and>
         collect_segments (run p text_in (resolve_voice voice0)) [] = Inr segs' \<and>
         files (snd (kokoro_generate_audio E text_in voice output_path w)) =
           (files w)(output_path \<mapsto> (concat segs', 24000)))"
    using assms f
    by (cases "collect_segments (run p text_in (resolve_voice voice0)) []";
        cases "sf_write_error E output_path")
      (auto simp add: kokoro_generate_audio_def generate_body_def torch_cat_concat Let_def
        split: if_splits)
  show ?thesis using a b c by blast
qed

theorem segments_decide_the_file_witness:
  "fst (kokoro_generate_audio silent_env (str ''Hello world'') (Some bella_display) demo_path
          module_world) =
     Inl (RuntimeError
       (str ''Kokoro generation failed: '' @ str ''No audio generated from Kokoro pipeline'')) \<and>
   files (snd (kokoro_generate_audio silent_env (str ''Hello world'') (Some bella_display)
                 demo_path module_world)) demo_path = None \<and>
   fst (kokoro_generate_audio hollow_env (str ''Hello world'') (Some bella_display) demo_path
          module_world) = Inr demo_path \<and>
   files (snd (kokoro_generate_audio hollow_env (str ''Hello world'') (Some bella_display)
                 demo_path module_world)) demo_path = Some ([], 24000) \<and>
   (\<exists>segs'. segs' \<noteq> [] \<and>
      files (snd (kokoro_generate_audio hollow_env (str ''Hello world'') (Some bella_display)
                    demo_path module_world)) =
        (files module_world)(demo_path \<mapsto> (concat segs', 24000)))"
proof -
  have l: "load_kokoro_model silent_env module_world =
      (Inr (demo_pipeline\<lparr>run := silent\<rparr>),
       module_world\<lparr>kokoro_pipeline := Some (demo_pipeline\<lparr>run := silent\<rparr>),
         pipeline_inits := 1\<rparr>)"
    by (simp add: load_step other_env_fields)
  have v: "resolve_voice bella_display \<in> set (voices (demo_pipeline\<lparr>run := silent\<rparr>))"
    by (simp add: resolve_bella demo_pipeline_def)
  have r: "run (demo_pipeline\<lparr>run := silent\<rparr>) (str ''Hello world'')
      (resolve_voice bella_display) = Stop"
    by (simp add: silent_def)
  have f: "files module_world demo_path = None"
    by (simp add: module_world_def fresh_world_def)
  have a: "fst (kokoro_generate_audio silent_env (str ''Hello world'') (Some bella_display)
        demo_path module_world) =
      Inl (RuntimeError
        (str ''Kokoro generation failed: '' @ str ''No audio generated from Kokoro pipeline'')) \<and>
    files (snd (kokoro_generate_audio silent_env (str ''Hello world'') (Some bella_display)
        demo_path module_world)) = files module_world"
    using segments_decide_the_file [of silent_env module_world
        "demo_pipeline\<lparr>run := silent\<rparr>" _ bella_display "Some bella_display"
        "str ''Hello world''" demo_path "[]", OF l _ v, THEN conjunct1] r
    by simp
  have s: "sf_write_error hollow_env demo_path = None"
    by (simp add: hollow_env_fields no_write_error_def)
  have b: "fst (kokoro_generate_audio hollow_env (str ''Hello world'') (Some bella_display)
        demo_path module_world) = Inr demo_path \<and>
    files (snd (kokoro_generate_audio hollow_env (str ''Hello world'') (Some bella_display)
        demo_path module_world)) demo_path = Some ([], 24000)"
    using segments_decide_the_file [of hollow_env module_world
        "demo_pipeline\<lparr>run := hollow\<rparr>" _ bella_display "Some bella_display"
        "str ''Hello world''" demo_path "[[]]", OF hollow_load _ hollow_voice,
        THEN conjunct2, THEN conjunct1] hollow_run s
    by simp
  let ?after = "files (snd (kokoro_generate_audio hollow_env (str ''Hello world'')
      (Some bella_display) demo_path module_world))"
  have ne: "?after \<noteq> files module_world"
  proof
    assume "?after = files module_world"
    then have "?after demo_path = files module_world demo_path" by (rule fun_cong)
    then have "Some (([]::tensor), (24000::nat)) = None"
      using b f by (simp only: )
    then show False by (simp only: option.distinct)
  qed
  have vv: "bella_display = (case Some bella_display of None \<Rightarrow> str ''af_alloy'' | Some v \<Rightarrow> v)"
    by simp
  note t = segments_decide_the_file [of hollow_env module_world
      "demo_pipeline\<lparr>run := hollow\<rparr>" _ bella_display "Some bella_display"
      "str ''Hello world''" demo_path "[[]]", OF hollow_load vv hollow_voice,
      THEN conjunct2, THEN conjunct2, THEN mp, OF ne]
  have c: "\<exists>segs'. segs' \<noteq> [] \<and> ?after =
      (files module_world)(demo_path \<mapsto> (concat segs', 24000))"
  proof -
    from t obtain segs' where "segs' \<noteq> []"
      and "?after = (files module_world)(demo_path \<mapsto> (concat segs', 24000))"
      by (elim exE conjE) (simp only: )
    then show ?thesis by (intro exI conjI)
  qed
  show ?thesis using a b c f by simp
qed

end
